theory Spec2Isabelle
  imports Main "HOL-Library.Sublist"
begin

section \<open>Strings and exceptions\<close>

text \<open>
  A Python \<open>str\<close> is a sequence of Unicode code points; slicing and \<open>len\<close> count code
  points. It is modelled as the list of its code points. ASCII literals are written with
  \<open>lit\<close>.
\<close>

type_synonym pystr = "nat list"

definition lit :: "string \<Rightarrow> pystr" where
  "lit s = map of_char s"

text \<open>Truthiness of an optional string: \<open>None\<close> and the empty string are falsy.\<close>

fun truthy :: "pystr option \<Rightarrow> bool" where
  "truthy None = False"
| "truthy (Some s) = (s \<noteq> [])"

text \<open>Python's \<open>x in s\<close> for strings: \<open>x\<close> occurs as a contiguous piece of \<open>s\<close>.\<close>

fun contains :: "pystr \<Rightarrow> pystr \<Rightarrow> bool" where
  "contains x [] = (x = [])"
| "contains x (c # cs) = (prefix x (c # cs) \<or> contains x cs)"

text \<open>
  An exception value: its class, its message (\<open>str(e)\<close>) and its \<open>__cause__\<close>.
  Only subclasses of \<open>Exception\<close> are modelled; \<open>JSONDecodeError\<close> is a subclass of
  \<open>ValueError\<close> in Python.
\<close>

datatype exn_kind =
  ValueError | JSONDecodeError | RuntimeError | TypeError | IndexError | KeyError
  | AttributeError | TokenLimitExceeded | RetryError | OtherException

datatype exn = Exn (kind: exn_kind) (message: pystr) (cause: "exn option")

definition is_ValueError :: "exn \<Rightarrow> bool" where
  "is_ValueError e = (kind e = ValueError \<or> kind e = JSONDecodeError)"

section \<open>Plan step status (app/flow/base.py)\<close>

definition NOT_STARTED :: pystr where "NOT_STARTED = lit ''not_started''"
definition IN_PROGRESS :: pystr where "IN_PROGRESS = lit ''in_progress''"
definition COMPLETED :: pystr where "COMPLETED = lit ''completed''"
definition BLOCKED :: pystr where "BLOCKED = lit ''blocked''"

definition get_all_statuses :: "pystr list" where
  "get_all_statuses = [NOT_STARTED, IN_PROGRESS, COMPLETED, BLOCKED]"

definition get_active_statuses :: "pystr list" where
  "get_active_statuses = [NOT_STARTED, IN_PROGRESS]"

section \<open>The plan store as the orchestrator sees it\<close>

text \<open>
  \<open>planning_tool.plans\<close> is a dictionary from plan id to a dictionary with the keys
  \<open>title\<close>, \<open>steps\<close>, \<open>step_statuses\<close> and \<open>step_notes\<close>. The orchestrator reads every key
  with \<open>.get(key, default)\<close>; a missing \<open>step_statuses\<close> or \<open>step_notes\<close> key is \<open>None\<close>
  here, because appending to the default list does not reach the store. A missing \<open>steps\<close>
  key reads as the empty list and is never written, so it is the empty list here.
\<close>

record plan_data =
  title :: "pystr option"
  steps :: "pystr list"
  step_statuses :: "pystr list option"
  step_notes :: "pystr list option"

type_synonym plans = "pystr \<rightharpoonup> plan_data"

text \<open>\<open>plan_data.get("step_statuses", [])\<close>\<close>

definition get_step_statuses :: "plan_data \<Rightarrow> pystr list" where
  "get_step_statuses pd = (case step_statuses pd of None \<Rightarrow> [] | Some xs \<Rightarrow> xs)"

definition get_step_notes :: "plan_data \<Rightarrow> pystr list" where
  "get_step_notes pd = (case step_notes pd of None \<Rightarrow> [] | Some xs \<Rightarrow> xs)"

text \<open>
  Modelled from the spec: the Plan Store's \<open>mark_step(plan_id, step_index, status)\<close>
  operation; \<open>app/tool/planning.py\<close> is not among the sources. It sets the status of the step
  at the index. A plan id that is not in the store is answered with a descriptive error
  result, not an exception, and the store is unchanged. An index that is not a position of
  the step list or of the status array is an exception, as a Python list assignment is.
\<close>

definition plan_store_mark_step :: "plans \<Rightarrow> pystr \<Rightarrow> nat \<Rightarrow> pystr \<Rightarrow> exn + plans" where
  "plan_store_mark_step ps pid i st =
     (case ps pid of
        None \<Rightarrow> Inr ps
      | Some pd \<Rightarrow>
          (case step_statuses pd of
             None \<Rightarrow> Inl (Exn KeyError (lit ''step_statuses'') None)
           | Some xs \<Rightarrow>
               if i < length (steps pd) \<and> i < length xs
               then Inr (ps(pid \<mapsto> pd\<lparr>step_statuses := Some (xs[i := st])\<rparr>))
               else Inl (Exn IndexError (lit ''list assignment index out of range'') None)))"

text \<open>
  Whether a call of the planning tool is answered or raises is not decided by the
  orchestrator: it is a parameter of every operation that calls the tool.
\<close>

datatype tool_outcome = Responds | Raises exn

definition planning_tool_mark_step ::
  "tool_outcome \<Rightarrow> plans \<Rightarrow> pystr \<Rightarrow> nat \<Rightarrow> pystr \<Rightarrow> exn + plans" where
  "planning_tool_mark_step oc ps pid i st =
     (case oc of Raises e \<Rightarrow> Inl e | Responds \<Rightarrow> plan_store_mark_step ps pid i st)"

section \<open>Selecting the next step (PlanningFlow.\_get\_current\_step\_info)\<close>

record step_info =
  text_of :: pystr
  type_of :: "pystr option"

text \<open>
  \<open>re.search(r"\[([A-Z_]+)\]", step)\<close>: the leftmost \<open>[\<close> that is followed by a non-empty
  run of capital letters and underscores and then \<open>]\<close>. The run cannot contain a bracket,
  so the greedy match is the whole run. Group 1 is the run.
\<close>

definition is_tag_char :: "nat \<Rightarrow> bool" where
  "is_tag_char c = ((65 \<le> c \<and> c \<le> 90) \<or> c = 95)"

fun type_match :: "pystr \<Rightarrow> pystr option" where
  "type_match [] = None"
| "type_match (c # cs) =
     (if c = 91 then
        (let run = takeWhile is_tag_char cs; rest = dropWhile is_tag_char cs
         in if run \<noteq> [] \<and> rest \<noteq> [] \<and> hd rest = 93 then Some run else type_match cs)
      else type_match cs)"

text \<open>
  \<open>str.lower()\<close> on ASCII letters; other code points are left as they are (the matched
  tag and the tool names of this repository are ASCII).
\<close>

definition lower_char :: "nat \<Rightarrow> nat" where
  "lower_char c = (if 65 \<le> c \<and> c \<le> 90 then c + 32 else c)"

definition lower :: "pystr \<Rightarrow> pystr" where
  "lower s = map lower_char s"

definition make_step_info :: "pystr \<Rightarrow> step_info" where
  "make_step_info step =
     \<lparr>text_of = step, type_of = map_option lower (type_match step)\<rparr>"

text \<open>The status the scan reads at index \<open>i\<close>: a missing entry reads as not started.\<close>

definition status_at :: "pystr list \<Rightarrow> nat \<Rightarrow> pystr" where
  "status_at sts i = (if i \<ge> length sts then NOT_STARTED else sts ! i)"

text \<open>\<open>for i, step in enumerate(steps)\<close>, from index \<open>i\<close> on.\<close>

fun find_active :: "pystr list \<Rightarrow> nat \<Rightarrow> pystr list \<Rightarrow> (nat \<times> pystr) option" where
  "find_active sts i [] = None"
| "find_active sts i (step # rest) =
     (if status_at sts i \<in> set get_active_statuses then Some (i, step)
      else find_active sts (Suc i) rest)"

text \<open>
  The write of the \<open>except\<close> branch: the entry is set in place when it exists; otherwise the
  array is extended with not-started entries up to the index and the new status is appended.
\<close>

definition mark_in_progress_locally :: "pystr list \<Rightarrow> nat \<Rightarrow> pystr list" where
  "mark_in_progress_locally sts i =
     (if i < length sts then sts[i := IN_PROGRESS]
      else sts @ replicate (i - length sts) NOT_STARTED @ [IN_PROGRESS])"

text \<open>
  The relevant fields of the flow: the active plan id, the plan store of its planning tool
  and the index of the current step.
\<close>

record flow =
  active_plan_id :: pystr
  plans :: plans
  current_step_index :: "nat option"

definition get_current_step_info ::
  "tool_outcome \<Rightarrow> 'a flow_scheme \<Rightarrow> (nat option \<times> step_info option) \<times> 'a flow_scheme" where
  "get_current_step_info oc f =
     (if active_plan_id f = [] then ((None, None), f)
      else case plans f (active_plan_id f) of
        None \<Rightarrow> ((None, None), f)
      | Some plan \<Rightarrow>
          (case find_active (get_step_statuses plan) 0 (steps plan) of
             None \<Rightarrow> ((None, None), f)
           | Some (i, step) \<Rightarrow>
               (case planning_tool_mark_step oc (plans f) (active_plan_id f) i IN_PROGRESS of
                  Inr ps \<Rightarrow> ((Some i, Some (make_step_info step)), f\<lparr>plans := ps\<rparr>)
                | Inl e \<Rightarrow>
                    ((Some i, Some (make_step_info step)),
                     f\<lparr>plans := (plans f)(active_plan_id f \<mapsto>
                         plan\<lparr>step_statuses :=
                           Some (mark_in_progress_locally (get_step_statuses plan) i)\<rparr>)\<rparr>))))"

section \<open>Marking a step completed (PlanningFlow.\_mark\_step\_completed)\<close>

text \<open>\<open>while len(step_statuses) <= index: append(not_started)\<close>, then the entry is set.\<close>

definition mark_completed_locally :: "pystr list \<Rightarrow> nat \<Rightarrow> pystr list" where
  "mark_completed_locally sts i =
     (sts @ replicate (Suc i - length sts) NOT_STARTED)[i := COMPLETED]"

definition mark_step_completed :: "tool_outcome \<Rightarrow> 'a flow_scheme \<Rightarrow> 'a flow_scheme" where
  "mark_step_completed oc f =
     (case current_step_index f of
        None \<Rightarrow> f
      | Some i \<Rightarrow>
          (case planning_tool_mark_step oc (plans f) (active_plan_id f) i COMPLETED of
             Inr ps \<Rightarrow> f\<lparr>plans := ps\<rparr>
           | Inl e \<Rightarrow>
               (case plans f (active_plan_id f) of
                  None \<Rightarrow> f
                | Some plan \<Rightarrow>
                    f\<lparr>plans := (plans f)(active_plan_id f \<mapsto>
                        plan\<lparr>step_statuses :=
                          Some (mark_completed_locally (get_step_statuses plan) i)\<rparr>)\<rparr>)))"

section \<open>Rendering the plan from storage (PlanningFlow.\_generate\_plan\_text\_from\_storage)\<close>

text \<open>
  The two padding statements append to the lists of the store in place. A list that came from
  the default of \<open>.get\<close> is not in the store, so a missing key stays missing.
\<close>

definition pad_to :: "nat \<Rightarrow> 'a \<Rightarrow> 'a list \<Rightarrow> 'a list" where
  "pad_to n x xs = xs @ replicate (n - length xs) x"

definition pad_plan_for_render :: "plan_data \<Rightarrow> plan_data" where
  "pad_plan_for_render plan =
     plan\<lparr>step_statuses := map_option (pad_to (length (steps plan)) NOT_STARTED) (step_statuses plan),
          step_notes := map_option (pad_to (length (steps plan)) []) (step_notes plan)\<rparr>"

text \<open>The status array the renderer counts and zips with the steps.\<close>

definition render_statuses :: "plan_data \<Rightarrow> pystr list" where
  "render_statuses plan = pad_to (length (steps plan)) NOT_STARTED (get_step_statuses plan)"


section \<open>Reading a flow's active plan\<close>

definition steps_of :: "'a flow_scheme \<Rightarrow> pystr list" where
  "steps_of f = (case plans f (active_plan_id f) of None \<Rightarrow> [] | Some p \<Rightarrow> steps p)"

definition statuses_of :: "'a flow_scheme \<Rightarrow> pystr list" where
  "statuses_of f =
     (case plans f (active_plan_id f) of None \<Rightarrow> [] | Some p \<Rightarrow> get_step_statuses p)"

section \<open>Example plans\<close>

text \<open>The deterministic fallback plan of \<open>_create_initial_plan\<close>, as freshly created.\<close>

definition default_steps :: "pystr list" where
  "default_steps = [lit ''Analyze request'', lit ''Execute task'', lit ''Verify results'']"

definition example_plan :: plan_data where
  "example_plan =
     \<lparr>title = Some (lit ''Plan for: demo''), steps = default_steps,
      step_statuses = Some [NOT_STARTED, NOT_STARTED, NOT_STARTED],
      step_notes = Some [Nil, Nil, Nil]\<rparr>"

definition example_flow :: flow where
  "example_flow =
     \<lparr>active_plan_id = lit ''plan_1'', plans = [lit ''plan_1'' \<mapsto> example_plan],
      current_step_index = None\<rparr>"



definition store_down :: tool_outcome where
  "store_down = Raises (Exn OtherException (lit ''plan store unavailable'') None)"

section \<open>Messages and tool calls\<close>

text \<open>
  Modelled from the spec: the message, tool-call and agent-state types of \<open>app/schema.py\<close>,
  which is not among the sources. A message has a role, an optional text content,
  zero or more tool-call references and an optional media attachment; a tool-role message
  also carries the id of the call it answers and the tool's name. A tool call has an id, a
  tool name and an argument payload; the schema's types exclude a call without a function
  record, so a missing name is the empty name here.
\<close>

datatype agent_state = IDLE | RUNNING | FINISHED

datatype tool_choice = NONE | AUTO | REQUIRED

datatype role = System | User | Assistant | Tool

record function_call =
  fn_name :: pystr
  fn_arguments :: pystr

record tool_call =
  call_id :: pystr
  call_function :: function_call

record msg =
  msg_role :: role
  msg_content :: "pystr option"
  msg_tool_calls :: "tool_call list"
  msg_name :: "pystr option"
  msg_tool_call_id :: "pystr option"
  msg_base64_image :: "pystr option"

definition user_message :: "pystr \<Rightarrow> msg" where
  "user_message c =
     \<lparr>msg_role = User, msg_content = Some c, msg_tool_calls = [], msg_name = None,
      msg_tool_call_id = None, msg_base64_image = None\<rparr>"

definition assistant_message :: "pystr \<Rightarrow> msg" where
  "assistant_message c =
     \<lparr>msg_role = Assistant, msg_content = Some c, msg_tool_calls = [], msg_name = None,
      msg_tool_call_id = None, msg_base64_image = None\<rparr>"

definition from_tool_calls :: "pystr \<Rightarrow> tool_call list \<Rightarrow> msg" where
  "from_tool_calls c calls =
     \<lparr>msg_role = Assistant, msg_content = Some c, msg_tool_calls = calls, msg_name = None,
      msg_tool_call_id = None, msg_base64_image = None\<rparr>"

definition tool_message :: "pystr \<Rightarrow> pystr \<Rightarrow> pystr \<Rightarrow> pystr option \<Rightarrow> msg" where
  "tool_message c tid n img =
     \<lparr>msg_role = Tool, msg_content = Some c, msg_tool_calls = [], msg_name = Some n,
      msg_tool_call_id = Some tid, msg_base64_image = img\<rparr>"

section \<open>Tool results (app/tool/base.py)\<close>

text \<open>\<open>output\<close> has type \<open>Any\<close> in the source; it is an optional string here.\<close>

record tool_result =
  res_output :: "pystr option"
  res_error :: "pystr option"
  res_base64_image :: "pystr option"
  res_system :: "pystr option"

text \<open>\<open>ToolResult.__bool__\<close>: some field is truthy.\<close>

definition tool_result_bool :: "tool_result \<Rightarrow> bool" where
  "tool_result_bool r =
     (truthy (res_output r) \<or> truthy (res_error r) \<or> truthy (res_base64_image r)
      \<or> truthy (res_system r))"

text \<open>
  \<open>str(result)\<close>: \<open>__str__\<close> returns the output when there is no error; when the output
  is \<open>None\<close>, \<open>str\<close> raises \<open>TypeError\<close>.
\<close>

definition tool_result_str :: "tool_result \<Rightarrow> exn + pystr" where
  "tool_result_str r =
     (case res_error r of
        Some err \<Rightarrow>
          if err \<noteq> [] then Inr (lit ''Error: '' @ err)
          else (case res_output r of
                  Some out \<Rightarrow> Inr out
                | None \<Rightarrow> Inl (Exn TypeError (lit ''__str__ returned non-string (type NoneType)'') None))
      | None \<Rightarrow>
          (case res_output r of
             Some out \<Rightarrow> Inr out
           | None \<Rightarrow> Inl (Exn TypeError (lit ''__str__ returned non-string (type NoneType)'') None)))"

section \<open>The tool-calling agent (app/agent/toolcall.py, app/agent/react.py)\<close>

definition TOOL_CALL_REQUIRED :: pystr where
  "TOOL_CALL_REQUIRED = lit ''Tool calls required but none provided''"

text \<open>
  The fields of the agent that \<open>think\<close>, \<open>act\<close> and \<open>execute_tool\<close> read and write.
  \<open>messages\<close> is \<open>memory.messages\<close>. \<open>max_observe\<close> is an optional integer (\<open>True\<close> is 1
  and \<open>False\<close> is 0 in Python). \<open>world\<close> is the state that the tools themselves read and
  write; the agent only passes it from one tool invocation to the next.
\<close>

record 'w agent =
  next_step_prompt :: "pystr option"
  system_prompt :: "pystr option"
  tool_choices :: tool_choice
  special_tool_names :: "pystr list"
  tool_calls :: "tool_call list"
  current_base64_image :: "pystr option"
  max_observe :: "int option"
  state :: agent_state
  messages :: "msg list"
  world :: 'w

text \<open>
  The collaborators of the agent that are not among the sources are parameters:
  \<^item> \<open>json_loads\<close> is \<open>json.loads\<close>, \<open>None\<close> when it raises \<open>JSONDecodeError\<close>;
  \<^item> \<open>tool_map\<close> gives, for each registered tool name, what
    \<open>available_tools.execute(name, tool_input)\<close> does: it returns a result or raises, and
    changes the world;
  \<open>should_finish_execution\<close> is the decision predicate of the agent class.
\<close>

record ('j, 'w) toolbox =
  json_loads :: "pystr \<Rightarrow> 'j option"
  tool_map :: "pystr \<rightharpoonup> ('j \<Rightarrow> 'w \<Rightarrow> (exn + tool_result) \<times> 'w)"
  should_finish_execution :: "pystr \<Rightarrow> tool_result \<Rightarrow> bool"

text \<open>\<open>ToolCallAgent._should_finish_execution\<close> returns \<open>True\<close>.\<close>

definition should_finish_execution_default :: "pystr \<Rightarrow> tool_result \<Rightarrow> bool" where
  "should_finish_execution_default name result = True"

text \<open>
  Modelled from the spec: the name of the terminate tool (\<open>app/tool/terminate.py\<close> is not
  among the sources), the only member of the default special-tool list.
\<close>

definition terminate_name :: pystr where
  "terminate_name = lit ''terminate''"

definition default_special_tool_names :: "pystr list" where
  "default_special_tool_names = [terminate_name]"

definition is_special_tool :: "('w, 'a) agent_scheme \<Rightarrow> pystr \<Rightarrow> bool" where
  "is_special_tool a name = (lower name \<in> set (map lower (special_tool_names a)))"

definition handle_special_tool ::
  "('j, 'w) toolbox \<Rightarrow> pystr \<Rightarrow> tool_result \<Rightarrow> ('w, 'a) agent_scheme \<Rightarrow> ('w, 'a) agent_scheme" where
  "handle_special_tool tb name result a =
     (if \<not> is_special_tool a name then a
      else if should_finish_execution tb name result then a\<lparr>state := FINISHED\<rparr>
      else a)"

text \<open>
  The observation text. The code points 96, 39 and 10 are the backquote, the single quote
  and the newline; 9888 and 65039 are the warning sign of the error text.
\<close>

definition observation :: "pystr \<Rightarrow> tool_result \<Rightarrow> exn + pystr" where
  "observation name result =
     (if tool_result_bool result then
        (case tool_result_str result of
           Inl e \<Rightarrow> Inl e
         | Inr s \<Rightarrow> Inr (lit ''Observed output of cmd '' @ [96] @ name @ [96] @ lit '' executed:''
                         @ [10] @ s))
      else Inr (lit ''Cmd '' @ [96] @ name @ [96] @ lit '' completed with no output''))"

definition parse_error_text :: "pystr \<Rightarrow> pystr" where
  "parse_error_text name =
     lit ''Error: '' @ lit ''Error parsing arguments for '' @ name @ lit '': Invalid JSON format''"

definition tool_error_text :: "pystr \<Rightarrow> exn \<Rightarrow> pystr" where
  "tool_error_text name e =
     lit ''Error: '' @ [9888, 65039] @ lit '' Tool '' @ [39] @ name @ [39]
       @ lit '' encountered a problem: '' @ message e"

text \<open>The two \<open>except\<close> clauses of \<open>execute_tool\<close>.\<close>

definition execute_tool_except :: "pystr \<Rightarrow> exn \<Rightarrow> pystr" where
  "execute_tool_except name e =
     (if kind e = JSONDecodeError then parse_error_text name else tool_error_text name e)"

definition execute_tool ::
  "('j, 'w) toolbox \<Rightarrow> tool_call \<Rightarrow> ('w, 'a) agent_scheme \<Rightarrow> pystr \<times> ('w, 'a) agent_scheme" where
  "execute_tool tb command a =
     (let name = fn_name (call_function command) in
      if name = [] then (lit ''Error: Invalid command format'', a)
      else case tool_map tb name of
        None \<Rightarrow> (lit ''Error: Unknown tool '' @ [39] @ name @ [39], a)
      | Some run \<Rightarrow>
          (case json_loads tb (if fn_arguments (call_function command) = [] then lit ''{}''
                               else fn_arguments (call_function command)) of
             None \<Rightarrow> (parse_error_text name, a)
           | Some args \<Rightarrow>
               (case run args (world a) of
                  (Inl e, w) \<Rightarrow> (execute_tool_except name e, a\<lparr>world := w\<rparr>)
                | (Inr result, w) \<Rightarrow>
                    (let a1 = handle_special_tool tb name result (a\<lparr>world := w\<rparr>);
                         a2 = (if truthy (res_base64_image result)
                               then a1\<lparr>current_base64_image := res_base64_image result\<rparr>
                               else a1)
                     in case observation name result of
                          Inl e \<Rightarrow> (execute_tool_except name e, a2)
                        | Inr obs \<Rightarrow> (obs, a2)))))"

text \<open>
  \<open>result[: self.max_observe]\<close>, guarded by \<open>if self.max_observe\<close>: a negative bound
  drops that many code points from the end.
\<close>

definition observe :: "int option \<Rightarrow> pystr \<Rightarrow> pystr" where
  "observe mo result =
     (case mo of
        None \<Rightarrow> result
      | Some n \<Rightarrow>
          if n = 0 then result
          else if 0 < n then take (nat n) result
          else take (length result - nat (- n)) result)"

text \<open>The loop of \<open>act\<close> over the pending calls; it returns the list \<open>results\<close>.\<close>

fun act_loop ::
  "('j, 'w) toolbox \<Rightarrow> tool_call list \<Rightarrow> ('w, 'a) agent_scheme
     \<Rightarrow> pystr list \<times> ('w, 'a) agent_scheme" where
  "act_loop tb [] a = ([], a)"
| "act_loop tb (command # rest) a =
     (let a1 = a\<lparr>current_base64_image := None\<rparr>;
          (result, a2) = execute_tool tb command a1;
          result' = observe (max_observe a2) result;
          a3 = a2\<lparr>messages := messages a2 @
                 [tool_message result' (call_id command) (fn_name (call_function command))
                    (current_base64_image a2)]\<rparr>;
          (results, a4) = act_loop tb rest a3
      in (result' # results, a4))"

text \<open>\<open>sep.join(xs)\<close>\<close>

fun join :: "pystr \<Rightarrow> pystr list \<Rightarrow> pystr" where
  "join sep [] = []"
| "join sep [x] = x"
| "join sep (x # y # ys) = x @ sep @ join sep (y # ys)"

definition act ::
  "('j, 'w) toolbox \<Rightarrow> ('w, 'a) agent_scheme \<Rightarrow> (exn + pystr) \<times> ('w, 'a) agent_scheme" where
  "act tb a =
     (if tool_calls a = [] then
        (if tool_choices a = REQUIRED then (Inl (Exn ValueError TOOL_CALL_REQUIRED None), a)
         else if messages a = [] then
           (Inl (Exn IndexError (lit ''list index out of range'') None), a)
         else if truthy (msg_content (last (messages a)))
           then (Inr (the (msg_content (last (messages a)))), a)
           else (Inr (lit ''No content or commands to execute''), a))
      else (let (results, a') = act_loop tb (tool_calls a) a
            in (Inr (join [10, 10] results), a')))"

text \<open>
  The answer of the reasoning oracle to \<open>ask_tool\<close>: it raises, or returns a response
  (\<open>None\<close> is possible) with an optional content and a list of proposed calls. The oracle
  is a parameter: a function of the message log, the system prompt and the policy.
\<close>

record response =
  resp_content :: "pystr option"
  resp_tool_calls :: "tool_call list"

type_synonym llm = "msg list \<Rightarrow> pystr option \<Rightarrow> tool_choice \<Rightarrow> exn + response option"

definition add_message :: "msg \<Rightarrow> ('w, 'a) agent_scheme \<Rightarrow> ('w, 'a) agent_scheme" where
  "add_message m a = a\<lparr>messages := messages a @ [m]\<rparr>"

definition token_limit_text :: "exn \<Rightarrow> pystr" where
  "token_limit_text c =
     lit ''Maximum token limit reached, cannot continue execution: '' @ message c"

text \<open>\<open>isinstance(e.__cause__, TokenLimitExceeded)\<close>\<close>

definition caused_by_token_limit :: "exn \<Rightarrow> bool" where
  "caused_by_token_limit e =
     (case cause e of None \<Rightarrow> False | Some c \<Rightarrow> kind c = TokenLimitExceeded)"

text \<open>The first statement of \<open>think\<close>: the next-step prompt, when set, joins the log.\<close>

definition append_next_step_prompt :: "('w, 'a) agent_scheme \<Rightarrow> ('w, 'a) agent_scheme" where
  "append_next_step_prompt a =
     (if truthy (next_step_prompt a)
      then add_message (user_message (the (next_step_prompt a))) a else a)"

definition system_msgs :: "('w, 'a) agent_scheme \<Rightarrow> pystr option" where
  "system_msgs a = (if truthy (system_prompt a) then system_prompt a else None)"

definition think ::
  "llm \<Rightarrow> ('w, 'a) agent_scheme \<Rightarrow> (exn + bool) \<times> ('w, 'a) agent_scheme" where
  "think ask_tool a =
     (let a1 = append_next_step_prompt a
      in case ask_tool (messages a1) (system_msgs a1) (tool_choices a1) of
           Inl e \<Rightarrow>
             if is_ValueError e then (Inl e, a1)
             else if caused_by_token_limit e then
               (Inr False,
                (add_message (assistant_message (token_limit_text (the (cause e)))) a1)
                  \<lparr>state := FINISHED\<rparr>)
             else (Inl e, a1)
         | Inr resp \<Rightarrow>
             (let calls = (case resp of None \<Rightarrow> [] | Some r \<Rightarrow> resp_tool_calls r);
                  content = (case resp of None \<Rightarrow> []
                             | Some r \<Rightarrow> (if truthy (resp_content r) then the (resp_content r) else []));
                  a2 = a1\<lparr>tool_calls := calls\<rparr>
              in case resp of
                   None \<Rightarrow>
                     (Inr False,
                      add_message (assistant_message
                        (lit ''Error encountered while processing: ''
                           @ lit ''No response received from the LLM'')) a2)
                 | Some r \<Rightarrow>
                     if tool_choices a2 = NONE then
                       (if content \<noteq> [] then (Inr True, add_message (assistant_message content) a2)
                        else (Inr False, a2))
                     else
                       (let a3 = add_message
                              (if calls \<noteq> [] then from_tool_calls content calls
                               else assistant_message content) a2
                        in if tool_choices a3 = REQUIRED \<and> calls = [] then (Inr True, a3)
                           else if tool_choices a3 = AUTO \<and> calls = [] then (Inr (content \<noteq> []), a3)
                           else (Inr (calls \<noteq> []), a3))))"

text \<open>\<open>ReActAgent.step\<close>\<close>

definition step ::
  "llm \<Rightarrow> ('j, 'w) toolbox \<Rightarrow> ('w, 'a) agent_scheme
     \<Rightarrow> (exn + pystr) \<times> ('w, 'a) agent_scheme" where
  "step ask_tool tb a =
     (case think ask_tool a of
        (Inl e, a') \<Rightarrow> (Inl e, a')
      | (Inr should_act, a') \<Rightarrow>
          if \<not> should_act then (Inr (lit ''Thinking complete - no action needed''), a')
          else act tb a')"






definition echo_tool :: "pystr \<Rightarrow> pystr list \<Rightarrow> (exn + tool_result) \<times> pystr list" where
  "echo_tool args w =
     (Inr \<lparr>res_output = Some args, res_error = None, res_base64_image = None, res_system = None\<rparr>,
      w @ [lit ''echo'' @ args])"

definition terminate_result :: tool_result where
  "terminate_result =
     \<lparr>res_output = Some (lit ''The interaction has been completed''), res_error = None,
      res_base64_image = None, res_system = None\<rparr>"

definition terminate_tool :: "pystr \<Rightarrow> pystr list \<Rightarrow> (exn + tool_result) \<times> pystr list" where
  "terminate_tool args w = (Inr terminate_result, w @ [lit ''terminate''])"

definition failing_tool :: "pystr \<Rightarrow> pystr list \<Rightarrow> (exn + tool_result) \<times> pystr list" where
  "failing_tool args w = (Inl (Exn RuntimeError (lit ''boom'') None), w)"

definition example_toolbox :: "(pystr, pystr list) toolbox" where
  "example_toolbox =
     \<lparr>json_loads = (\<lambda>s. if s \<noteq> [] \<and> hd s = 123 then Some s else None),
      tool_map = [lit ''echo'' \<mapsto> echo_tool, terminate_name \<mapsto> terminate_tool,
                  lit ''fail'' \<mapsto> failing_tool],
      should_finish_execution = should_finish_execution_default\<rparr>"

definition mk_call :: "pystr \<Rightarrow> pystr \<Rightarrow> pystr \<Rightarrow> tool_call" where
  "mk_call i n args = \<lparr>call_id = i, call_function = \<lparr>fn_name = n, fn_arguments = args\<rparr>\<rparr>"

definition example_agent :: "pystr list agent" where
  "example_agent =
     \<lparr>next_step_prompt = None, system_prompt = None, tool_choices = AUTO,
      special_tool_names = default_special_tool_names, tool_calls = [],
      current_base64_image = None, max_observe = None, state = RUNNING, messages = [],
      world = []\<rparr>"


text \<open>An oracle that raises the given exception, and one that returns the given response.\<close>

definition raising_llm :: "exn \<Rightarrow> llm" where
  "raising_llm e msgs sys tc = Inl e"

definition answering_llm :: "response \<Rightarrow> llm" where
  "answering_llm r msgs sys tc = Inr (Some r)"

definition token_limit_error :: exn where
  "token_limit_error = Exn TokenLimitExceeded (lit ''Request may exceed input token limit'') None"

definition retry_error :: exn where
  "retry_error = Exn RetryError (lit ''RetryError'') (Some token_limit_error)"

definition value_error_from_token_limit :: exn where
  "value_error_from_token_limit = Exn ValueError (lit ''invalid request'') (Some token_limit_error)"

text \<open>An agent with no pending calls whose latest message has an empty content.\<close>

definition silent_agent :: "pystr list agent" where
  "silent_agent = example_agent\<lparr>messages := [assistant_message []]\<rparr>"

text \<open>An agent under the \<open>NONE\<close> policy, and an oracle answer with text and a call.\<close>

definition none_agent :: "pystr list agent" where
  "none_agent = example_agent\<lparr>tool_choices := NONE\<rparr>"

definition text_and_call :: response where
  "text_and_call =
     \<lparr>resp_content = Some (lit ''I am done''),
      resp_tool_calls = [mk_call (lit ''call_9'') terminate_name []]\<rparr>"

text \<open>The state in which \<open>think\<close> stops on a token-limit failure with cause \<open>c\<close>.\<close>

definition stopped_on_token_limit :: "exn \<Rightarrow> ('w, 'a) agent_scheme \<Rightarrow> ('w, 'a) agent_scheme" where
  "stopped_on_token_limit c a =
     (add_message (assistant_message (token_limit_text c)) (append_next_step_prompt a))
       \<lparr>state := FINISHED\<rparr>"

text \<open>Agents and oracle answers for the policies.\<close>

definition required_agent :: "pystr list agent" where
  "required_agent = example_agent\<lparr>tool_choices := REQUIRED\<rparr>"

definition greeting_agent :: "pystr list agent" where
  "greeting_agent = example_agent\<lparr>messages := [assistant_message (lit ''hello'')]\<rparr>"

definition empty_response :: response where
  "empty_response = \<lparr>resp_content = None, resp_tool_calls = []\<rparr>"

text \<open>The content that \<open>think\<close> reads from a response.\<close>

definition content_of :: "response \<Rightarrow> pystr" where
  "content_of r = (if truthy (resp_content r) then the (resp_content r) else [])"

section \<open>The planning flow (app/flow/planning.py, app/flow/base.py)\<close>

text \<open>
  The flow with its agents. An agent is a value of a type \<open>'g\<close> that the flow does not look
  into; \<open>agents\<close> is the dictionary of the flow.
\<close>

record 'g planning_flow = flow +
  agents :: "pystr \<rightharpoonup> 'g"
  primary_agent_key :: "pystr option"
  executor_keys :: "pystr list"

text \<open>
  The collaborators of the flow that are not among the sources are parameters:
  \<^item> \<open>ask_tool_for_plan\<close> is \<open>llm.ask_tool\<close> on the planning request and
    \<open>ask_for_summary\<close> is \<open>llm.ask\<close> on the final plan text; each returns or raises;
  \<^item> \<open>loads\<close> is \<open>json.loads\<close>, \<open>None\<close> when it raises \<open>JSONDecodeError\<close>;
  \<^item> \<open>planning_execute args pid\<close> is \<open>args["plan_id"] = pid\<close> followed by
    \<open>planning_tool.execute(**args)\<close> on arguments that the oracle proposed;
  \<^item> \<open>create_outcome\<close> and \<open>mark_outcome\<close> say whether the planning tool answers the
    \<open>create\<close> and \<open>mark_step\<close> commands of the flow or raises, and \<open>get_outcome\<close> is the
    \<open>get\<close> command: the rendered plan or an exception;
  \<^item> \<open>render_from_storage\<close> is the layout of the text that
    \<open>_generate_plan_text_from_storage\<close> builds from the padded plan (it contains a
    floating-point percentage and is not modelled further);
  \<^item> \<open>agent_run\<close> is \<open>BaseAgent.run\<close>: it returns a text or raises and changes the agent;
    it has no access to the plan store of the flow. \<open>agent_state\<close> reads the agent's state.
\<close>

record ('j, 'g) collaborators =
  ask_tool_for_plan :: "pystr \<Rightarrow> exn + response option"
  ask_for_summary :: "pystr \<Rightarrow> exn + pystr"
  loads :: "pystr \<Rightarrow> 'j option"
  planning_execute :: "'j \<Rightarrow> pystr \<Rightarrow> plans \<Rightarrow> exn + plans"
  create_outcome :: tool_outcome
  mark_outcome :: "plans \<Rightarrow> pystr \<Rightarrow> tool_outcome"
  get_outcome :: "plans \<Rightarrow> pystr \<Rightarrow> exn + pystr"
  render_from_storage :: "pystr \<Rightarrow> plan_data \<Rightarrow> pystr"
  agent_run :: "pystr \<Rightarrow> 'g \<Rightarrow> (exn + pystr) \<times> 'g"
  agent_state :: "'g \<Rightarrow> agent_state"

text \<open>\<open>BaseFlow.primary_agent\<close>: \<open>self.agents.get(self.primary_agent_key)\<close>\<close>

definition primary_agent :: "('g, 'a) planning_flow_scheme \<Rightarrow> 'g option" where
  "primary_agent f = (case primary_agent_key f of None \<Rightarrow> None | Some k \<Rightarrow> agents f k)"

text \<open>
  \<open>get_executor\<close> returns an agent of the dictionary; the model returns its key, so that
  the agent can be written back after it has run.
\<close>

definition get_executor :: "('g, 'a) planning_flow_scheme \<Rightarrow> pystr option \<Rightarrow> pystr option" where
  "get_executor f step_type =
     (if truthy step_type \<and> agents f (the step_type) \<noteq> None then step_type
      else case find (\<lambda>key. agents f key \<noteq> None) (executor_keys f) of
             Some key \<Rightarrow> Some key
           | None \<Rightarrow> (if primary_agent f = None then None else primary_agent_key f))"

text \<open>\<open>str(n)\<close> for a non-negative integer, and for the optional step index.\<close>

function str_nat :: "nat \<Rightarrow> pystr" where
  "str_nat n = (if n < 10 then [48 + n] else str_nat (n div 10) @ [48 + n mod 10])"
  by pat_completeness auto
termination
  by (relation "measure id") auto

definition str_index :: "nat option \<Rightarrow> pystr" where
  "str_index i = (case i of None \<Rightarrow> lit ''None'' | Some n \<Rightarrow> str_nat n)"

text \<open>
  Modelled from the spec: the Plan Store's \<open>create(plan_id, title, steps)\<close> operation
  (\<open>app/tool/planning.py\<close> is not among the sources): the new plan has the given steps,
  a status array of the same length filled with not started, and empty notes.
\<close>

definition plan_store_create :: "plans \<Rightarrow> pystr \<Rightarrow> pystr \<Rightarrow> pystr list \<Rightarrow> plans" where
  "plan_store_create ps pid ttl sts =
     ps(pid \<mapsto> \<lparr>title = Some ttl, steps = sts,
                 step_statuses = Some (replicate (length sts) NOT_STARTED),
                 step_notes = Some (replicate (length sts) [])\<rparr>)"

text \<open>The title of the default plan: the first 50 code points of the request.\<close>

definition default_title :: "pystr \<Rightarrow> pystr" where
  "default_title request =
     lit ''Plan for: '' @ take 50 request @ (if length request > 50 then lit ''...'' else [])"

text \<open>
  The loop of \<open>_create_initial_plan\<close> over the proposed calls: the first call named
  \<open>planning\<close> whose arguments parse is executed and ends the method; \<open>None\<close> when the loop
  ends without one.
\<close>

fun try_planning_calls ::
  "('j, 'g) collaborators \<Rightarrow> pystr \<Rightarrow> plans \<Rightarrow> tool_call list \<Rightarrow> (exn + plans) option" where
  "try_planning_calls env pid ps [] = None"
| "try_planning_calls env pid ps (c # cs) =
     (if fn_name (call_function c) = lit ''planning'' then
        (case loads env (fn_arguments (call_function c)) of
           None \<Rightarrow> try_planning_calls env pid ps cs
         | Some args \<Rightarrow> Some (planning_execute env args pid ps))
      else try_planning_calls env pid ps cs)"

definition create_initial_plan ::
  "('j, 'g) collaborators \<Rightarrow> pystr \<Rightarrow> ('g, 'a) planning_flow_scheme
     \<Rightarrow> exn + ('g, 'a) planning_flow_scheme" where
  "create_initial_plan env request f =
     (case ask_tool_for_plan env request of
        Inl e \<Rightarrow> Inl e
      | Inr None \<Rightarrow>
          Inl (Exn AttributeError
                 (lit ''NoneType object has no attribute tool_calls'') None)
      | Inr (Some r) \<Rightarrow>
          (case try_planning_calls env (active_plan_id f) (plans f) (resp_tool_calls r) of
             Some (Inl e) \<Rightarrow> Inl e
           | Some (Inr ps) \<Rightarrow> Inr (f\<lparr>plans := ps\<rparr>)
           | None \<Rightarrow>
               (case create_outcome env of
                  Raises e \<Rightarrow> Inl e
                | Responds \<Rightarrow>
                    Inr (f\<lparr>plans := plan_store_create (plans f) (active_plan_id f)
                                     (default_title request) default_steps\<rparr>))))"

text \<open>\<open>_generate_plan_text_from_storage\<close> and \<open>_get_plan_text\<close>\<close>

definition generate_plan_text_from_storage ::
  "('j, 'g) collaborators \<Rightarrow> ('g, 'a) planning_flow_scheme
     \<Rightarrow> pystr \<times> ('g, 'a) planning_flow_scheme" where
  "generate_plan_text_from_storage env f =
     (case plans f (active_plan_id f) of
        None \<Rightarrow> (lit ''Error: Plan with ID '' @ active_plan_id f @ lit '' not found'', f)
      | Some plan \<Rightarrow>
          (render_from_storage env (active_plan_id f)
             (plan\<lparr>step_statuses := Some (render_statuses plan),
                   step_notes := Some (pad_to (length (steps plan)) [] (get_step_notes plan))\<rparr>),
           f\<lparr>plans := (plans f)(active_plan_id f \<mapsto> pad_plan_for_render plan)\<rparr>))"

definition get_plan_text ::
  "('j, 'g) collaborators \<Rightarrow> ('g, 'a) planning_flow_scheme
     \<Rightarrow> pystr \<times> ('g, 'a) planning_flow_scheme" where
  "get_plan_text env f =
     (case get_outcome env (plans f) (active_plan_id f) of
        Inr t \<Rightarrow> (t, f)
      | Inl e \<Rightarrow> generate_plan_text_from_storage env f)"

text \<open>The prompt of \<open>_execute_step\<close>, with the indentation of the source.\<close>

definition step_prompt :: "pystr \<Rightarrow> nat option \<Rightarrow> pystr \<Rightarrow> pystr" where
  "step_prompt plan_status idx step_text =
     [10] @ lit ''           CURRENT PLAN STATUS:'' @ [10] @ lit ''           '' @ plan_status
     @ [10, 10] @ lit ''           YOUR CURRENT TASK:'' @ [10]
     @ lit ''           You are now working on step '' @ str_index idx
     @ lit '': '' @ [34] @ step_text
     @ [34, 10, 10]
     @ lit ''           Please execute this step using the appropriate tools. When you''
     @ [39] @ lit ''re done, provide a summary of what you accomplished.'' @ [10]
     @ lit ''           ''"

definition step_error_text :: "nat option \<Rightarrow> exn \<Rightarrow> pystr" where
  "step_error_text idx e =
     lit ''Error executing step '' @ str_index idx @ lit '': '' @ message e"

text \<open>
  Running the agent stored under a key and writing it back. \<open>None\<close> stands for the Python
  value \<open>None\<close> in the place of an agent: calling \<open>run\<close> on it raises \<open>AttributeError\<close>.
\<close>

definition run_agent ::
  "('j, 'g) collaborators \<Rightarrow> pystr option \<Rightarrow> pystr \<Rightarrow> ('g, 'a) planning_flow_scheme
     \<Rightarrow> (exn + pystr) \<times> ('g, 'a) planning_flow_scheme" where
  "run_agent env key prompt f =
     (case (case key of None \<Rightarrow> None | Some k \<Rightarrow> map_option (Pair k) (agents f k)) of
        None \<Rightarrow> (Inl (Exn AttributeError (lit ''NoneType object has no attribute run'') None), f)
      | Some (k, g) \<Rightarrow>
          (case agent_run env prompt g of
             (r, g') \<Rightarrow> (r, f\<lparr>agents := (agents f)(k \<mapsto> g')\<rparr>)))"

definition execute_step ::
  "('j, 'g) collaborators \<Rightarrow> pystr option \<Rightarrow> step_info \<Rightarrow> ('g, 'a) planning_flow_scheme
     \<Rightarrow> pystr \<times> ('g, 'a) planning_flow_scheme" where
  "execute_step env executor info f =
     (let (plan_status, f1) = get_plan_text env f;
          prompt = step_prompt plan_status (current_step_index f1) (text_of info)
      in case run_agent env executor prompt f1 of
           (Inr step_result, f2) \<Rightarrow>
             (step_result, mark_step_completed (mark_outcome env (plans f2) COMPLETED) f2)
         | (Inl e, f2) \<Rightarrow> (step_error_text (current_step_index f2) e, f2))"

text \<open>\<open>_finalize_plan\<close>\<close>

definition summary_prompt :: "pystr \<Rightarrow> pystr" where
  "summary_prompt plan_text =
     [10] @ lit ''                   The plan has been completed. Here is the final plan status:''
     @ [10, 10] @ lit ''                   '' @ plan_text @ [10, 10]
     @ lit ''                   Please provide a summary of what was accomplished and any final thoughts.''
     @ [10] @ lit ''                   ''"

definition finalize_plan ::
  "('j, 'g) collaborators \<Rightarrow> ('g, 'a) planning_flow_scheme
     \<Rightarrow> pystr \<times> ('g, 'a) planning_flow_scheme" where
  "finalize_plan env f =
     (let (plan_text, f1) = get_plan_text env f
      in case ask_for_summary env plan_text of
           Inr resp \<Rightarrow> (lit ''Plan completed:'' @ [10, 10] @ resp, f1)
         | Inl e \<Rightarrow>
             (case run_agent env (if primary_agent f1 = None then None else primary_agent_key f1)
                     (summary_prompt plan_text) f1 of
                (Inr summary, f2) \<Rightarrow> (lit ''Plan completed:'' @ [10, 10] @ summary, f2)
              | (Inl e2, f2) \<Rightarrow> (lit ''Plan completed. Error generating summary.'', f2)))"

text \<open>\<open>hasattr(executor, "state") and executor.state == AgentState.FINISHED\<close>\<close>

definition executor_finished ::
  "('j, 'g) collaborators \<Rightarrow> ('g, 'a) planning_flow_scheme \<Rightarrow> pystr option \<Rightarrow> bool" where
  "executor_finished env f key =
     (case (case key of None \<Rightarrow> None | Some k \<Rightarrow> agents f k) of
        None \<Rightarrow> False
      | Some g \<Rightarrow> agent_state env g = FINISHED)"

text \<open>
  The \<open>while True\<close> loop of \<open>execute\<close>. It need not end, so it runs on fuel: \<open>None\<close> means
  that the loop was still running when the fuel was used up.
\<close>

fun execute_loop ::
  "nat \<Rightarrow> ('j, 'g) collaborators \<Rightarrow> ('g, 'a) planning_flow_scheme \<Rightarrow> pystr
     \<Rightarrow> (pystr \<times> ('g, 'a) planning_flow_scheme) option" where
  "execute_loop 0 env f result = None"
| "execute_loop (Suc n) env f result =
     (case get_current_step_info (mark_outcome env (plans f) IN_PROGRESS) f of
        ((idx, info), f1) \<Rightarrow>
          (let f2 = f1\<lparr>current_step_index := idx\<rparr>
           in case idx of
                None \<Rightarrow> (case finalize_plan env f2 of (t, f3) \<Rightarrow> Some (result @ t, f3))
              | Some i \<Rightarrow>
                  (let executor = get_executor f2 (case info of None \<Rightarrow> None | Some si \<Rightarrow> type_of si)
                   in case execute_step env executor (the info) f2 of
                        (step_result, f3) \<Rightarrow>
                          if executor_finished env f3 executor
                          then Some (result @ step_result @ [10], f3)
                          else execute_loop n env f3 (result @ step_result @ [10]))))"

text \<open>
  \<open>execute\<close>: the body of the \<open>try\<close>, which returns a text or raises, and the \<open>except\<close>
  clause, which turns the exception into a text.
\<close>

definition no_primary_agent_error :: exn where
  "no_primary_agent_error =
     Exn ValueError [27809, 26377, 21487, 29992, 30340, 20027, 20195, 29702] None"

definition plan_creation_failed_text :: "pystr \<Rightarrow> pystr" where
  "plan_creation_failed_text input_text =
     [20026] @ lit '': '' @ input_text @ lit '' '' @ [21019, 24314, 35745, 21010, 22833, 36133]"

definition execution_failed_text :: "exn \<Rightarrow> pystr" where
  "execution_failed_text e = lit ''Execution failed: '' @ message e"

definition execute_try ::
  "nat \<Rightarrow> ('j, 'g) collaborators \<Rightarrow> pystr \<Rightarrow> ('g, 'a) planning_flow_scheme
     \<Rightarrow> ((exn + pystr) \<times> ('g, 'a) planning_flow_scheme) option" where
  "execute_try n env input_text f =
     (if primary_agent f = None then Some (Inl no_primary_agent_error, f)
      else if input_text \<noteq> [] then
        (case create_initial_plan env input_text f of
           Inl e \<Rightarrow> Some (Inl e, f)
         | Inr f1 \<Rightarrow>
             if plans f1 (active_plan_id f1) = None
             then Some (Inr (plan_creation_failed_text input_text), f1)
             else map_option (\<lambda>(t, f2). (Inr t, f2)) (execute_loop n env f1 []))
      else map_option (\<lambda>(t, f2). (Inr t, f2)) (execute_loop n env f []))"

definition execute ::
  "nat \<Rightarrow> ('j, 'g) collaborators \<Rightarrow> pystr \<Rightarrow> ('g, 'a) planning_flow_scheme
     \<Rightarrow> (pystr \<times> ('g, 'a) planning_flow_scheme) option" where
  "execute n env input_text f =
     map_option (\<lambda>(r, f'). (case r of Inl e \<Rightarrow> execution_failed_text e | Inr t \<Rightarrow> t, f'))
       (execute_try n env input_text f)"









section \<open>Properties of the step scan\<close>

lemma find_active_Some:
  "find_active sts k ss = Some (i, s) \<Longrightarrow>
     k \<le> i \<and> i < k + length ss \<and> s = ss ! (i - k) \<and> status_at sts i \<in> set get_active_statuses
     \<and> (\<forall>j. k \<le> j \<and> j < i \<longrightarrow> status_at sts j \<notin> set get_active_statuses)"
proof (induction ss arbitrary: k)
  case Nil
  then show ?case by simp
next
  case (Cons a ss)
  show ?case
  proof (cases "status_at sts k \<in> set get_active_statuses")
    case True
    with Cons.prems show ?thesis by auto
  next
    case False
    with Cons.prems have "find_active sts (Suc k) ss = Some (i, s)" by simp
    from Cons.IH[OF this] have ih: "Suc k \<le> i" "i < Suc k + length ss" "s = ss ! (i - Suc k)"
      "status_at sts i \<in> set get_active_statuses"
      "\<And>j. Suc k \<le> j \<Longrightarrow> j < i \<Longrightarrow> status_at sts j \<notin> set get_active_statuses"
      by auto
    have "status_at sts j \<notin> set get_active_statuses" if "k \<le> j" "j < i" for j
    proof (cases "j = k")
      case True
      with False show ?thesis by simp
    next
      case False
      with that have "Suc k \<le> j" by simp
      from ih(5)[OF this that(2)] show ?thesis .
    qed
    moreover have "(a # ss) ! (i - k) = ss ! (i - Suc k)"
      using ih(1) by (simp add: nth_Cons')
    ultimately show ?thesis using ih by auto
  qed
qed

lemma find_active_None:
  "find_active sts k ss = None \<Longrightarrow>
     (\<forall>j. k \<le> j \<and> j < k + length ss \<longrightarrow> status_at sts j \<notin> set get_active_statuses)"
proof (induction ss arbitrary: k)
  case Nil
  then show ?case by auto
next
  case (Cons a ss)
  then have a: "status_at sts k \<notin> set get_active_statuses" and b: "find_active sts (Suc k) ss = None"
    by (auto split: if_splits)
  have "status_at sts j \<notin> set get_active_statuses" if "k \<le> j" "j < k + length (a # ss)" for j
  proof (cases "j = k")
    case True
    with a show ?thesis by simp
  next
    case False
    with that have "Suc k \<le> j \<and> j < Suc k + length ss" by simp
    with Cons.IH[OF b] show ?thesis by blast
  qed
  then show ?case by blast
qed

lemma find_active_cong:
  "(\<And>j. k \<le> j \<Longrightarrow> j < k + length ss \<Longrightarrow>
      (status_at sts j \<in> set get_active_statuses) = (status_at sts' j \<in> set get_active_statuses))
   \<Longrightarrow> find_active sts k ss = find_active sts' k ss"
proof (induction ss arbitrary: k)
  case Nil
  then show ?case by simp
next
  case (Cons a ss)
  have "find_active sts (Suc k) ss = find_active sts' (Suc k) ss"
    by (rule Cons.IH) (use Cons.prems in auto)
  moreover have "(status_at sts k \<in> set get_active_statuses) = (status_at sts' k \<in> set get_active_statuses)"
    by (rule Cons.prems) auto
  ultimately show ?case by simp
qed

lemma status_at_update:
  "i < length sts \<Longrightarrow> status_at (sts[i := v]) j = (if j = i then v else status_at sts j)"
  by (simp add: status_at_def)

lemma status_at_mark_in_progress_locally:
  "status_at (mark_in_progress_locally sts i) j = (if j = i then IN_PROGRESS else status_at sts j)"
  by (auto simp: mark_in_progress_locally_def status_at_def nth_append)

lemma IN_PROGRESS_active: "IN_PROGRESS \<in> set get_active_statuses"
  by (simp add: get_active_statuses_def)


lemma plan_store_mark_step_Inr:
  "plan_store_mark_step ps pid i st = Inr ps' \<Longrightarrow> ps pid = Some pd \<Longrightarrow>
     \<exists>xs. step_statuses pd = Some xs \<and> i < length xs \<and> i < length (steps pd)
        \<and> ps' = ps(pid \<mapsto> pd\<lparr>step_statuses := Some (xs[i := st])\<rparr>)"
  by (auto simp: plan_store_mark_step_def split: option.splits if_splits)

text \<open>What a select-next call that found step \<open>i\<close> leaves in the store.\<close>

lemma get_current_step_info_found:
  assumes "get_current_step_info oc f = ((Some i, si), f')"
  shows "\<exists>plan sts'. active_plan_id f \<noteq> [] \<and> plans f (active_plan_id f) = Some plan
     \<and> find_active (get_step_statuses plan) 0 (steps plan) = Some (i, steps plan ! i)
     \<and> si = Some (make_step_info (steps plan ! i))
     \<and> f' = f\<lparr>plans := (plans f)(active_plan_id f \<mapsto> plan\<lparr>step_statuses := Some sts'\<rparr>)\<rparr>
     \<and> i < length sts'
     \<and> length (get_step_statuses plan) \<le> length sts'
     \<and> (\<forall>j. status_at sts' j = (if j = i then IN_PROGRESS else status_at (get_step_statuses plan) j))"
proof -
  from assms have ne: "active_plan_id f \<noteq> []"
    by (auto simp: get_current_step_info_def split: if_splits)
  from assms ne obtain plan where plan: "plans f (active_plan_id f) = Some plan"
    by (auto simp: get_current_step_info_def split: option.splits)
  from assms ne plan obtain step where fa: "find_active (get_step_statuses plan) 0 (steps plan) = Some (i, step)"
    by (auto simp: get_current_step_info_def split: option.splits sum.splits)
  from find_active_Some[OF fa] have step: "step = steps plan ! i" by simp
  from assms ne plan fa have si: "si = Some (make_step_info step)"
    by (auto simp: get_current_step_info_def split: sum.splits)
  show ?thesis
  proof (cases "planning_tool_mark_step oc (plans f) (active_plan_id f) i IN_PROGRESS")
    case (Inl e)
    let ?sts = "mark_in_progress_locally (get_step_statuses plan) i"
    from assms ne plan fa Inl
    have "f' = f\<lparr>plans := (plans f)(active_plan_id f \<mapsto> plan\<lparr>step_statuses := Some ?sts\<rparr>)\<rparr>"
      by (simp add: get_current_step_info_def)
    moreover have "i < length ?sts" "length (get_step_statuses plan) \<le> length ?sts"
      by (auto simp: mark_in_progress_locally_def)
    ultimately show ?thesis
      using ne plan fa step si status_at_mark_in_progress_locally by blast
  next
    case (Inr ps)
    then have "plan_store_mark_step (plans f) (active_plan_id f) i IN_PROGRESS = Inr ps"
      by (auto simp: planning_tool_mark_step_def split: tool_outcome.splits)
    from plan_store_mark_step_Inr[OF this plan] obtain xs where
      xs: "step_statuses plan = Some xs" "i < length xs"
      "ps = (plans f)(active_plan_id f \<mapsto> plan\<lparr>step_statuses := Some (xs[i := IN_PROGRESS])\<rparr>)"
      by blast
    from assms ne plan fa Inr have "f' = f\<lparr>plans := ps\<rparr>"
      by (simp add: get_current_step_info_def)
    moreover have "get_step_statuses plan = xs"
      using xs(1) by (simp add: get_step_statuses_def)
    moreover have "\<forall>j. status_at (xs[i := IN_PROGRESS]) j = (if j = i then IN_PROGRESS else status_at xs j)"
      using status_at_update[OF xs(2)] by blast
    moreover have "i < length (xs[i := IN_PROGRESS])" "length xs \<le> length (xs[i := IN_PROGRESS])"
      using xs(2) by simp_all
    ultimately show ?thesis
      using ne plan fa step si xs(3) by blast
  qed
qed

lemma get_current_step_info_none:
  assumes "get_current_step_info oc f = ((None, si), f')"
  shows "f' = f \<and> si = None"
  using assms
  by (auto simp: get_current_step_info_def split: if_splits option.splits sum.splits)


lemma get_current_step_info_again:
  assumes "get_current_step_info oc1 f = (r, f1)"
  shows "get_current_step_info oc2 f1 = (r, f1)"
proof (cases "fst r")
  case None
  then obtain si where r: "r = (None, si)" by (cases r) auto
  from get_current_step_info_none[OF assms[unfolded r]] have f1: "f1 = f" and si: "si = None" by auto
  from assms r f1 have "get_current_step_info oc1 f = ((None, None), f)" using si by simp
  then have "get_current_step_info oc2 f = ((None, None), f)"
    by (auto simp: get_current_step_info_def split: if_splits option.splits sum.splits)
  with r f1 si show ?thesis by simp
next
  case (Some i)
  then obtain si where r: "r = (Some i, si)" by (cases r) auto
  from get_current_step_info_found[OF assms[unfolded r]] obtain plan sts' where
    ne: "active_plan_id f \<noteq> []" and plan: "plans f (active_plan_id f) = Some plan"
    and fa: "find_active (get_step_statuses plan) 0 (steps plan) = Some (i, steps plan ! i)"
    and si: "si = Some (make_step_info (steps plan ! i))"
    and f1: "f1 = f\<lparr>plans := (plans f)(active_plan_id f \<mapsto> plan\<lparr>step_statuses := Some sts'\<rparr>)\<rparr>"
    and len: "i < length sts'"
    and st: "\<And>j. status_at sts' j = (if j = i then IN_PROGRESS else status_at (get_step_statuses plan) j)"
    by blast
  let ?plan' = "plan\<lparr>step_statuses := Some sts'\<rparr>"
  from find_active_Some[OF fa] have act: "status_at (get_step_statuses plan) i \<in> set get_active_statuses"
    and iN: "i < length (steps plan)" by auto
  have same: "find_active sts' 0 (steps plan) = find_active (get_step_statuses plan) 0 (steps plan)"
    by (rule find_active_cong) (use st act IN_PROGRESS_active in auto)
  have nth: "sts' ! i = IN_PROGRESS"
    using st[of i] len by (simp add: status_at_def)
  have upd: "sts'[i := IN_PROGRESS] = sts'"
    using nth by (metis list_update_id)
  have pid1: "active_plan_id f1 = active_plan_id f" and plans1: "plans f1 (active_plan_id f) = Some ?plan'"
    using f1 by simp_all
  have gs: "get_step_statuses ?plan' = sts'" by (simp add: get_step_statuses_def)
  have fa1: "find_active (get_step_statuses ?plan') 0 (steps ?plan') = Some (i, steps plan ! i)"
    using same fa gs by simp
  have loc: "mark_in_progress_locally sts' i = sts'"
    using len upd by (simp add: mark_in_progress_locally_def)
  have store: "(plans f1)(active_plan_id f \<mapsto> ?plan'\<lparr>step_statuses := Some sts'\<rparr>) = plans f1"
    using plans1 by (auto simp: fun_eq_iff)
  have resp: "plan_store_mark_step (plans f1) (active_plan_id f) i IN_PROGRESS = Inr (plans f1)"
    using plans1 len iN upd store by (simp add: plan_store_mark_step_def)
  have "get_current_step_info oc2 f1 = ((Some i, Some (make_step_info (steps plan ! i))), f1)"
  proof (cases oc2)
    case Responds
    then show ?thesis
      using ne pid1 plans1 fa1 resp
      by (simp add: get_current_step_info_def planning_tool_mark_step_def)
  next
    case (Raises e)
    then show ?thesis
      using ne pid1 plans1 fa1 gs loc store
      by (simp add: get_current_step_info_def planning_tool_mark_step_def)
  qed
  with r si show ?thesis by simp
qed








text \<open>
  C4. Select-next, called again on the state the first call left, returns the same index
  and the same step information and leaves the state, hence the status array, as it is,
  whether or not the plan store answers either call. The index is the first one, in step
  order, whose status (not started when the entry is missing) is not started or in
  progress; the type tag is computed from that step's text.
\<close>

theorem select_next_step_idempotent:
  assumes "get_current_step_info oc1 f = ((idx, info), f1)"
  shows "get_current_step_info oc2 f1 = ((idx, info), f1)
     \<and> statuses_of (snd (get_current_step_info oc2 f1)) = statuses_of f1
     \<and> (\<forall>i. idx = Some i \<longrightarrow>
          i < length (steps_of f)
          \<and> status_at (statuses_of f) i \<in> set get_active_statuses
          \<and> (\<forall>j<i. status_at (statuses_of f) j \<notin> set get_active_statuses)
          \<and> info = Some (make_step_info (steps_of f ! i))
          \<and> status_at (statuses_of f1) i = IN_PROGRESS)"
proof -
  have again: "get_current_step_info oc2 f1 = ((idx, info), f1)"
    by (rule get_current_step_info_again[OF assms])
  have "i < length (steps_of f)
          \<and> status_at (statuses_of f) i \<in> set get_active_statuses
          \<and> (\<forall>j<i. status_at (statuses_of f) j \<notin> set get_active_statuses)
          \<and> info = Some (make_step_info (steps_of f ! i))
          \<and> status_at (statuses_of f1) i = IN_PROGRESS" if "idx = Some i" for i
  proof -
    from get_current_step_info_found[OF assms[unfolded that]] obtain plan sts' where
      plan: "plans f (active_plan_id f) = Some plan"
      and fa: "find_active (get_step_statuses plan) 0 (steps plan) = Some (i, steps plan ! i)"
      and si: "info = Some (make_step_info (steps plan ! i))"
      and f1: "f1 = f\<lparr>plans := (plans f)(active_plan_id f \<mapsto> plan\<lparr>step_statuses := Some sts'\<rparr>)\<rparr>"
      and st: "\<And>j. status_at sts' j = (if j = i then IN_PROGRESS else status_at (get_step_statuses plan) j)"
      by blast
    from find_active_Some[OF fa] plan si f1 st[of i] show ?thesis
      by (auto simp: steps_of_def statuses_of_def get_step_statuses_def)
  qed
  with again show ?thesis by simp
qed

lemma example_flow_select:
  "get_current_step_info Responds example_flow =
     ((Some 0, Some \<lparr>text_of = lit ''Analyze request'', type_of = None\<rparr>),
      example_flow\<lparr>plans := [lit ''plan_1'' \<mapsto>
         example_plan\<lparr>step_statuses := Some [IN_PROGRESS, NOT_STARTED, NOT_STARTED]\<rparr>]\<rparr>)"
  by (simp add: get_current_step_info_def example_flow_def example_plan_def default_steps_def
      planning_tool_mark_step_def plan_store_mark_step_def
      get_step_statuses_def status_at_def get_active_statuses_def
      make_step_info_def lit_def)

theorem select_next_step_idempotent_witness:
  "get_current_step_info Responds example_flow =
     ((Some 0, Some \<lparr>text_of = lit ''Analyze request'', type_of = None\<rparr>),
      example_flow\<lparr>plans := [lit ''plan_1'' \<mapsto>
         example_plan\<lparr>step_statuses := Some [IN_PROGRESS, NOT_STARTED, NOT_STARTED]\<rparr>]\<rparr>)
   \<and> get_current_step_info store_down
       (example_flow\<lparr>plans := [lit ''plan_1'' \<mapsto>
         example_plan\<lparr>step_statuses := Some [IN_PROGRESS, NOT_STARTED, NOT_STARTED]\<rparr>]\<rparr>) =
     ((Some 0, Some \<lparr>text_of = lit ''Analyze request'', type_of = None\<rparr>),
      example_flow\<lparr>plans := [lit ''plan_1'' \<mapsto>
         example_plan\<lparr>step_statuses := Some [IN_PROGRESS, NOT_STARTED, NOT_STARTED]\<rparr>]\<rparr>)"
  using example_flow_select
    select_next_step_idempotent [OF example_flow_select, of store_down]
  by simp







lemma contains_append: "contains x (p @ x @ s)"
proof (induction p)
  case Nil
  have "prefix x (x @ s)" by simp
  then show ?case by (cases "x @ s") auto
next
  case (Cons c p)
  then show ?case by simp
qed





text \<open>
  C6. \<open>execute_tool\<close> ends every path with a returned string. A call without a tool name
  gives \<open>Error: Invalid command format\<close>; a name that is not registered gives
  \<open>Error: Unknown tool '<name>'\<close>; a payload that \<open>json.loads\<close> rejects gives an error
  text that names the tool and says \<open>Invalid JSON format\<close>; in these three cases the agent is
  unchanged. An exception raised by the tool is returned as an error text that begins with
  \<open>Error: \<close> and names the tool.
\<close>

theorem execute_tool_returns_error_text:
  "(fn_name (call_function c) = [] \<longrightarrow>
      execute_tool tb c a = (lit ''Error: Invalid command format'', a))
   \<and> (fn_name (call_function c) \<noteq> [] \<and> tool_map tb (fn_name (call_function c)) = None \<longrightarrow>
      execute_tool tb c a
        = (lit ''Error: Unknown tool '' @ [39] @ fn_name (call_function c) @ [39], a))
   \<and> (fn_name (call_function c) \<noteq> [] \<and> tool_map tb (fn_name (call_function c)) = Some run
       \<and> json_loads tb (if fn_arguments (call_function c) = [] then lit ''{}''
                         else fn_arguments (call_function c)) = None \<longrightarrow>
      execute_tool tb c a = (parse_error_text (fn_name (call_function c)), a)
      \<and> prefix (lit ''Error: '') (parse_error_text (fn_name (call_function c)))
      \<and> contains (fn_name (call_function c)) (parse_error_text (fn_name (call_function c)))
      \<and> contains (lit ''Invalid JSON format'') (parse_error_text (fn_name (call_function c))))
   \<and> (fn_name (call_function c) \<noteq> [] \<and> tool_map tb (fn_name (call_function c)) = Some run
       \<and> json_loads tb (if fn_arguments (call_function c) = [] then lit ''{}''
                         else fn_arguments (call_function c)) = Some args
       \<and> fst (run args (world a)) = Inl e \<longrightarrow>
      fst (execute_tool tb c a) = execute_tool_except (fn_name (call_function c)) e
      \<and> prefix (lit ''Error: '') (fst (execute_tool tb c a))
      \<and> contains (fn_name (call_function c)) (fst (execute_tool tb c a)))"
proof -
  let ?n = "fn_name (call_function c)"
  have p1: "prefix (lit ''Error: '') (parse_error_text ?n)"
    by (simp add: parse_error_text_def)
  have p2: "contains ?n (parse_error_text ?n)"
    unfolding parse_error_text_def
    using contains_append[of ?n "lit ''Error: '' @ lit ''Error parsing arguments for ''"
        "lit '': Invalid JSON format''"] by simp
  have p3: "contains (lit ''Invalid JSON format'') (parse_error_text ?n)"
  proof -
    have "lit '': Invalid JSON format'' = lit '': '' @ lit ''Invalid JSON format''"
      by (simp add: lit_def)
    then have "parse_error_text ?n = (lit ''Error: '' @ lit ''Error parsing arguments for '' @ ?n
        @ lit '': '') @ lit ''Invalid JSON format'' @ []"
      by (simp add: parse_error_text_def)
    then show ?thesis using contains_append by metis
  qed
  have t1: "prefix (lit ''Error: '') (execute_tool_except ?n e)"
    using p1 by (simp add: execute_tool_except_def tool_error_text_def)
  have t2: "contains ?n (execute_tool_except ?n e)"
  proof (cases "kind e = JSONDecodeError")
    case True
    with p2 show ?thesis by (simp add: execute_tool_except_def)
  next
    case False
    have "tool_error_text ?n e = (lit ''Error: '' @ [9888, 65039] @ lit '' Tool '' @ [39]) @ ?n
        @ ([39] @ lit '' encountered a problem: '' @ message e)"
      by (simp add: tool_error_text_def)
    then have "contains ?n (tool_error_text ?n e)" using contains_append by metis
    with False show ?thesis by (simp add: execute_tool_except_def)
  qed
  have raise: "fst (execute_tool tb c a) = execute_tool_except ?n e"
    if "?n \<noteq> []" "tool_map tb ?n = Some run"
      "json_loads tb (if fn_arguments (call_function c) = [] then lit ''{}''
                         else fn_arguments (call_function c)) = Some args"
      "fst (run args (world a)) = Inl e"
    using that by (cases "run args (world a)") (simp add: execute_tool_def)
  show ?thesis
    using p1 p2 p3 t1 t2 raise by (simp add: execute_tool_def)
qed

theorem execute_tool_returns_error_text_witness:
  "execute_tool example_toolbox (mk_call (lit ''c0'') [] []) example_agent
      = (lit ''Error: Invalid command format'', example_agent)
   \<and> execute_tool example_toolbox (mk_call (lit ''c1'') (lit ''frobnicate'') []) example_agent
      = (lit ''Error: Unknown tool '' @ [39] @ lit ''frobnicate'' @ [39], example_agent)
   \<and> execute_tool example_toolbox (mk_call (lit ''c2'') (lit ''echo'') (lit ''not json'')) example_agent
      = (parse_error_text (lit ''echo''), example_agent)
   \<and> fst (execute_tool example_toolbox (mk_call (lit ''c3'') (lit ''fail'') (lit ''{}'')) example_agent)
      = tool_error_text (lit ''fail'') (Exn RuntimeError (lit ''boom'') None)"
proof -
  have h1: "fn_name (call_function (mk_call (lit ''c0'') [] [])) = []"
    by (simp add: mk_call_def)
  have h2: "fn_name (call_function (mk_call (lit ''c1'') (lit ''frobnicate'') [])) \<noteq> []
      \<and> tool_map example_toolbox (fn_name (call_function (mk_call (lit ''c1'') (lit ''frobnicate'') []))) = None"
    by (simp add: mk_call_def example_toolbox_def terminate_name_def lit_def)
  have h3: "fn_name (call_function (mk_call (lit ''c2'') (lit ''echo'') (lit ''not json''))) \<noteq> []
      \<and> tool_map example_toolbox (fn_name (call_function (mk_call (lit ''c2'') (lit ''echo'') (lit ''not json'')))) = Some echo_tool
      \<and> json_loads example_toolbox
          (if fn_arguments (call_function (mk_call (lit ''c2'') (lit ''echo'') (lit ''not json''))) = [] then lit ''{}''
           else fn_arguments (call_function (mk_call (lit ''c2'') (lit ''echo'') (lit ''not json'')))) = None"
    by (simp add: mk_call_def example_toolbox_def terminate_name_def lit_def)
  have h4: "fn_name (call_function (mk_call (lit ''c3'') (lit ''fail'') (lit ''{}''))) \<noteq> []
      \<and> tool_map example_toolbox (fn_name (call_function (mk_call (lit ''c3'') (lit ''fail'') (lit ''{}'')))) = Some failing_tool
      \<and> json_loads example_toolbox
          (if fn_arguments (call_function (mk_call (lit ''c3'') (lit ''fail'') (lit ''{}''))) = [] then lit ''{}''
           else fn_arguments (call_function (mk_call (lit ''c3'') (lit ''fail'') (lit ''{}'')))) = Some (lit ''{}'')
      \<and> fst (failing_tool (lit ''{}'') (world example_agent)) = Inl (Exn RuntimeError (lit ''boom'') None)"
    by (simp add: mk_call_def example_toolbox_def terminate_name_def failing_tool_def lit_def)
  have n: "fn_name (call_function (mk_call (lit ''c1'') (lit ''frobnicate'') [])) = lit ''frobnicate''"
    "fn_name (call_function (mk_call (lit ''c2'') (lit ''echo'') (lit ''not json''))) = lit ''echo''"
    "fn_name (call_function (mk_call (lit ''c3'') (lit ''fail'') (lit ''{}''))) = lit ''fail''"
    by (simp_all add: mk_call_def)
  have k: "execute_tool_except (lit ''fail'') (Exn RuntimeError (lit ''boom'') None)
      = tool_error_text (lit ''fail'') (Exn RuntimeError (lit ''boom'') None)"
    by (simp add: execute_tool_except_def)
  show ?thesis
    using h1 h2 h3 h4 k
      execute_tool_returns_error_text [where c = "mk_call (lit ''c0'') [] []"
        and tb = example_toolbox and a = example_agent]
      execute_tool_returns_error_text [where c = "mk_call (lit ''c1'') (lit ''frobnicate'') []"
        and tb = example_toolbox and a = example_agent]
      execute_tool_returns_error_text [where c = "mk_call (lit ''c2'') (lit ''echo'') (lit ''not json'')"
        and tb = example_toolbox and a = example_agent and run = echo_tool]
      execute_tool_returns_error_text [where c = "mk_call (lit ''c3'') (lit ''fail'') (lit ''{}'')"
        and tb = example_toolbox and a = example_agent and run = failing_tool
        and args = "lit ''{}''" and e = "Exn RuntimeError (lit ''boom'') None"]
    unfolding n by metis
qed


lemma lower_member: "name \<in> set names \<Longrightarrow> lower name \<in> set (map lower names)"
  by simp



lemma append_next_step_prompt_fields:
  "tool_choices (append_next_step_prompt a) = tool_choices a"
  "tool_calls (append_next_step_prompt a) = tool_calls a"
  "state (append_next_step_prompt a) = state a"
  by (simp_all add: append_next_step_prompt_def add_message_def)

lemma token_limit_text_contains: "contains (lit ''token limit'') (token_limit_text c)"
proof -
  have "lit ''Maximum token limit reached, cannot continue execution: ''
      = lit ''Maximum '' @ lit ''token limit'' @ lit '' reached, cannot continue execution: ''"
    by (simp add: lit_def)
  then have "token_limit_text c = lit ''Maximum '' @ lit ''token limit''
      @ (lit '' reached, cannot continue execution: '' @ message c)"
    by (simp add: token_limit_text_def)
  then show ?thesis using contains_append by metis
qed

text \<open>
  C2 (as amended). Let the oracle call of \<open>think\<close> raise \<open>e\<close>. When \<open>e\<close> is not a
  \<open>ValueError\<close> and its cause is a token-limit error, \<open>think\<close> returns false, the state is
  \<open>FINISHED\<close>, one assistant message whose text contains \<open>token limit\<close> is appended, and
  \<open>step\<close> returns \<open>Thinking complete - no action needed\<close>. In every other case, a
  \<open>ValueError\<close> with a token-limit cause included, \<open>e\<close> itself reaches the caller of
  \<open>think\<close> and of \<open>step\<close>, and the state is not changed.
\<close>

theorem think_token_limit_or_propagate:
  assumes "ask_tool (messages (append_next_step_prompt a)) (system_msgs (append_next_step_prompt a))
             (tool_choices a) = Inl e"
  shows "(\<not> is_ValueError e \<and> caused_by_token_limit e \<longrightarrow>
            think ask_tool a = (Inr False, stopped_on_token_limit (the (cause e)) a)
          \<and> state (stopped_on_token_limit (the (cause e)) a) = FINISHED
          \<and> messages (stopped_on_token_limit (the (cause e)) a)
              = messages (append_next_step_prompt a)
                  @ [assistant_message (token_limit_text (the (cause e)))]
          \<and> contains (lit ''token limit'') (token_limit_text (the (cause e)))
          \<and> step ask_tool tb a
              = (Inr (lit ''Thinking complete - no action needed''),
                 stopped_on_token_limit (the (cause e)) a))
       \<and> (is_ValueError e \<or> \<not> caused_by_token_limit e \<longrightarrow>
            think ask_tool a = (Inl e, append_next_step_prompt a)
          \<and> step ask_tool tb a = (Inl e, append_next_step_prompt a)
          \<and> state (append_next_step_prompt a) = state a)"
proof -
  have stop: "think ask_tool a = (Inr False, stopped_on_token_limit (the (cause e)) a)"
    if "\<not> is_ValueError e" "caused_by_token_limit e"
    using assms that
    by (simp add: think_def Let_def stopped_on_token_limit_def append_next_step_prompt_fields)
  have passes: "think ask_tool a = (Inl e, append_next_step_prompt a)"
    if "is_ValueError e \<or> \<not> caused_by_token_limit e"
    using assms that
    by (auto simp: think_def Let_def append_next_step_prompt_fields)
  have "state (stopped_on_token_limit c a) = FINISHED" for c
    by (simp add: stopped_on_token_limit_def)
  moreover have "messages (stopped_on_token_limit c a)
      = messages (append_next_step_prompt a) @ [assistant_message (token_limit_text c)]" for c
    by (simp add: stopped_on_token_limit_def add_message_def)
  ultimately show ?thesis
    using stop passes token_limit_text_contains
    by (auto simp: step_def append_next_step_prompt_fields)
qed

theorem think_token_limit_or_propagate_witness:
  "think (raising_llm retry_error) example_agent
      = (Inr False, stopped_on_token_limit token_limit_error example_agent)
   \<and> state (stopped_on_token_limit token_limit_error example_agent) = FINISHED
   \<and> step (raising_llm retry_error) example_toolbox example_agent
      = (Inr (lit ''Thinking complete - no action needed''),
         stopped_on_token_limit token_limit_error example_agent)
   \<and> think (raising_llm token_limit_error) example_agent
      = (Inl token_limit_error, append_next_step_prompt example_agent)"
proof -
  have r1: "raising_llm retry_error (messages (append_next_step_prompt example_agent))
      (system_msgs (append_next_step_prompt example_agent)) (tool_choices example_agent)
      = Inl retry_error"
    and r2: "raising_llm token_limit_error (messages (append_next_step_prompt example_agent))
      (system_msgs (append_next_step_prompt example_agent)) (tool_choices example_agent)
      = Inl token_limit_error"
    by (simp_all add: raising_llm_def)
  have c1: "\<not> is_ValueError retry_error \<and> caused_by_token_limit retry_error"
    and c2: "the (cause retry_error) = token_limit_error"
    and c3: "is_ValueError token_limit_error \<or> \<not> caused_by_token_limit token_limit_error"
    by (simp_all add: retry_error_def token_limit_error_def is_ValueError_def
        caused_by_token_limit_def)
  show ?thesis
    using c1 c2 c3
      think_token_limit_or_propagate [where ask_tool = "raising_llm retry_error"
        and a = example_agent and e = retry_error and tb = example_toolbox, OF r1]
      think_token_limit_or_propagate [where ask_tool = "raising_llm token_limit_error"
        and a = example_agent and e = token_limit_error and tb = example_toolbox, OF r2]
    by simp
qed

text \<open>
  C2 (as stated) fails: a \<open>ValueError\<close> raised by the oracle whose cause is a token-limit
  error is re-raised by the first \<open>except\<close> clause; \<open>think\<close> does not return, no message is
  appended and the state stays \<open>RUNNING\<close>.
\<close>

theorem think_token_limit_counterexample:
  "caused_by_token_limit value_error_from_token_limit
   \<and> think (raising_llm value_error_from_token_limit) example_agent
       = (Inl value_error_from_token_limit, example_agent)
   \<and> state example_agent = RUNNING"
  by (simp add: think_def raising_llm_def value_error_from_token_limit_def token_limit_error_def
      caused_by_token_limit_def is_ValueError_def append_next_step_prompt_def example_agent_def)

text \<open>
  C5 (as amended). Under \<open>REQUIRED\<close>, when the oracle returns a response without tool
  calls, \<open>think\<close> returns true; \<open>act\<close> without pending calls then raises \<open>ValueError\<close> with
  the text \<open>Tool calls required but none provided\<close>. Under another policy, \<open>act\<close> without
  pending calls and with a non-empty log leaves the agent as it is and returns the content
  of the latest message when that content is a non-empty string, and the text
  \<open>No content or commands to execute\<close> when it is absent or empty.
\<close>

theorem required_policy_defers_to_act:
  "(tool_choices a = REQUIRED
      \<and> ask_tool (messages (append_next_step_prompt a)) (system_msgs (append_next_step_prompt a))
           (tool_choices a) = Inr (Some r)
      \<and> resp_tool_calls r = [] \<longrightarrow>
      fst (think ask_tool a) = Inr True \<and> tool_calls (snd (think ask_tool a)) = [])
   \<and> (tool_calls b = [] \<and> tool_choices b = REQUIRED \<longrightarrow>
      act tb b = (Inl (Exn ValueError TOOL_CALL_REQUIRED None), b)
      \<and> TOOL_CALL_REQUIRED = lit ''Tool calls required but none provided'')
   \<and> (tool_calls c = [] \<and> tool_choices c \<noteq> REQUIRED \<and> messages c \<noteq> [] \<longrightarrow>
      act tb' c =
        (Inr (if truthy (msg_content (last (messages c)))
              then the (msg_content (last (messages c)))
              else lit ''No content or commands to execute''), c))"
  by (auto simp: think_def Let_def append_next_step_prompt_fields add_message_def act_def
      TOOL_CALL_REQUIRED_def)


theorem required_policy_defers_to_act_witness:
  "fst (think (answering_llm empty_response) required_agent) = Inr True
   \<and> act example_toolbox required_agent
       = (Inl (Exn ValueError TOOL_CALL_REQUIRED None), required_agent)
   \<and> act example_toolbox greeting_agent = (Inr (lit ''hello''), greeting_agent)"
proof -
  have h1: "tool_choices required_agent = REQUIRED
      \<and> answering_llm empty_response (messages (append_next_step_prompt required_agent))
          (system_msgs (append_next_step_prompt required_agent)) (tool_choices required_agent)
          = Inr (Some empty_response)
      \<and> resp_tool_calls empty_response = []"
    by (simp add: required_agent_def answering_llm_def empty_response_def)
  have h2: "tool_calls required_agent = [] \<and> tool_choices required_agent = REQUIRED"
    by (simp add: required_agent_def example_agent_def)
  have h3: "tool_calls greeting_agent = [] \<and> tool_choices greeting_agent \<noteq> REQUIRED
      \<and> messages greeting_agent \<noteq> []"
    by (simp add: greeting_agent_def example_agent_def)
  have v: "(if truthy (msg_content (last (messages greeting_agent)))
              then the (msg_content (last (messages greeting_agent)))
              else lit ''No content or commands to execute'') = lit ''hello''"
    by (simp add: greeting_agent_def assistant_message_def lit_def)
  show ?thesis
    using h1 h2 h3 v
      required_policy_defers_to_act [where a = required_agent
        and ask_tool = "answering_llm empty_response" and r = empty_response
        and b = required_agent and tb = example_toolbox
        and c = greeting_agent and tb' = example_toolbox]
    by simp
qed

text \<open>
  C5 (as stated) fails: under \<open>AUTO\<close>, with no pending calls and a latest message whose
  content is the empty string, \<open>act\<close> returns \<open>No content or commands to execute\<close>, which
  is not that content.
\<close>

theorem act_without_calls_counterexample:
  "tool_calls silent_agent = [] \<and> tool_choices silent_agent \<noteq> REQUIRED
   \<and> msg_content (last (messages silent_agent)) = Some []
   \<and> fst (act example_toolbox silent_agent) = Inr (lit ''No content or commands to execute'')
   \<and> lit ''No content or commands to execute'' \<noteq> []"
  by (simp add: silent_agent_def example_agent_def assistant_message_def act_def lit_def)

text \<open>
  What \<open>think\<close> does under \<open>NONE\<close> when the oracle answers: the log grows by the assistant
  message with the content when the content is not empty and by nothing otherwise, so no
  message with tool calls is appended; the result is whether the content is not empty; the
  proposed calls are stored in \<open>tool_calls\<close>.
\<close>

lemma think_none_policy:
  assumes "tool_choices a = NONE"
    and "ask_tool (messages (append_next_step_prompt a)) (system_msgs (append_next_step_prompt a))
           (tool_choices a) = Inr (Some r)"
  shows "fst (think ask_tool a) = Inr (content_of r \<noteq> [])"
    and "messages (snd (think ask_tool a)) = messages (append_next_step_prompt a)
           @ (if content_of r \<noteq> [] then [assistant_message (content_of r)] else [])"
    and "tool_calls (snd (think ask_tool a)) = resp_tool_calls r"
  using assms
  by (simp_all add: think_def Let_def append_next_step_prompt_fields add_message_def content_of_def)

text \<open>
  C7 at a failing input. Under \<open>NONE\<close> the oracle answers with the text \<open>I am done\<close> and a
  call of the terminate tool. \<open>think\<close> appends the text only, but keeps the proposed call
  in \<open>tool_calls\<close> and returns true; \<open>step\<close> goes on to \<open>act\<close>, which runs the call: the
  terminate tool is invoked, a tool-role message joins the log and the state is \<open>FINISHED\<close>.
\<close>

theorem none_policy_calls_are_kept_and_run:
  "tool_choices none_agent = NONE
   \<and> think (answering_llm text_and_call) none_agent
       = (Inr True,
          none_agent\<lparr>tool_calls := [mk_call (lit ''call_9'') terminate_name []],
                     messages := [assistant_message (lit ''I am done'')]\<rparr>)
   \<and> map msg_role (messages (snd (step (answering_llm text_and_call) example_toolbox none_agent)))
       = [Assistant, Tool]
   \<and> world (snd (step (answering_llm text_and_call) example_toolbox none_agent))
       = [lit ''terminate'']
   \<and> state (snd (step (answering_llm text_and_call) example_toolbox none_agent)) = FINISHED"
proof -
  have t: "think (answering_llm text_and_call) none_agent
       = (Inr True,
          none_agent\<lparr>tool_calls := [mk_call (lit ''call_9'') terminate_name []],
                     messages := [assistant_message (lit ''I am done'')]\<rparr>)"
    by (simp add: think_def Let_def answering_llm_def text_and_call_def none_agent_def
        example_agent_def append_next_step_prompt_def add_message_def lit_def)
  have s: "step (answering_llm text_and_call) example_toolbox none_agent
      = act example_toolbox
          (none_agent\<lparr>tool_calls := [mk_call (lit ''call_9'') terminate_name []],
                     messages := [assistant_message (lit ''I am done'')]\<rparr>)"
    by (simp add: step_def t)
  have x: "act example_toolbox
          (none_agent\<lparr>tool_calls := [mk_call (lit ''call_9'') terminate_name []],
                     messages := [assistant_message (lit ''I am done'')]\<rparr>)
      = (Inr (lit ''Observed output of cmd '' @ [96] @ terminate_name @ [96] @ lit '' executed:''
           @ [10] @ lit ''The interaction has been completed''),
         none_agent\<lparr>tool_calls := [mk_call (lit ''call_9'') terminate_name []],
                     messages := [assistant_message (lit ''I am done''),
                       tool_message (lit ''Observed output of cmd '' @ [96] @ terminate_name @ [96]
                           @ lit '' executed:'' @ [10] @ lit ''The interaction has been completed'')
                         (lit ''call_9'') terminate_name None],
                     world := [lit ''terminate''],
                     state := FINISHED\<rparr>)"
    by (simp add: act_def execute_tool_def Let_def mk_call_def example_toolbox_def
        terminate_tool_def observe_def
        terminate_result_def handle_special_tool_def is_special_tool_def none_agent_def
        example_agent_def default_special_tool_names_def should_finish_execution_default_def
        observation_def tool_result_bool_def tool_result_str_def terminate_name_def lit_def)
  show ?thesis
    unfolding s x
    by (simp add: t tool_message_def assistant_message_def)
      (simp add: none_agent_def)
qed










end
